theory Spec2Isabelle
  imports Complex_Main
begin

section \<open>The admission webhook of \<^verbatim>\<open>main.go\<close>\<close>

text \<open>
  The program is one HTTP handler, \<^verbatim>\<open>handleAdmissionReview\<close>, with two helpers,
  \<^verbatim>\<open>parseAdmissionReview\<close> and \<^verbatim>\<open>httpError\<close>. The handler is embedded as a function
  from the response writer, the request and the process-wide log to an outcome. The
  Kubernetes structs it touches are records holding the fields the handler reads or
  writes; a Go pointer is an \<open>option\<close> (\<open>None\<close> is \<^verbatim>\<open>nil\<close>); a Go \<^verbatim>\<open>error\<close> is the text
  its \<^verbatim>\<open>Error()\<close> method returns; a nil-pointer dereference is the outcome \<open>Panic\<close>.
\<close>

subsection \<open>Errors and bytes\<close>

type_synonym error = string
type_synonym bytes = string

subsection \<open>Quantities\<close>

text \<open>
  Modelled from the spec: \<^verbatim>\<open>resource.Quantity\<close> of \<^verbatim>\<open>k8s.io/apimachinery\<close>, which
  \<^verbatim>\<open>main.go\<close> imports and whose code is not among the sources. The specification calls it
  a numeric value with a unit or scale, held as a decimal or binary-scaled integer and
  never as a float. A quantity is an integer mantissa and a decimal exponent, standing for
  \<open>mantissa * 10 ^ exponent\<close>: \<^verbatim>\<open>"500m"\<close> is \<open>500 * 10 ^ -3\<close>, \<^verbatim>\<open>"1"\<close> is \<open>1 * 10 ^ 0\<close>,
  \<^verbatim>\<open>"128Mi"\<close> is \<open>134217728 * 10 ^ 0\<close>.
\<close>

record Quantity =
  mantissa :: int
  exponent :: int

text \<open>
  Modelled from the spec: the zero value of a \<^verbatim>\<open>resource.Quantity\<close>, which a Go
  \<^verbatim>\<open>var\<close> declaration without initialiser yields ("each initialized to zero").
\<close>

definition Quantity_zero :: Quantity where
  "Quantity_zero = \<lparr>mantissa = 0, exponent = 0\<rparr>"

text \<open>
  Modelled from the spec: \<^verbatim>\<open>q.Add(y)\<close>, the "additive accumulate operation that must
  preserve exact decimal semantics". The two mantissas are brought to the smaller of the
  two exponents and added as unbounded integers; the result is the new value of \<open>q\<close>.
\<close>

definition Quantity_Add :: "Quantity \<Rightarrow> Quantity \<Rightarrow> Quantity" where
  "Quantity_Add q y =
     (if exponent q \<le> exponent y
      then \<lparr>mantissa = mantissa q + mantissa y * 10 ^ nat (exponent y - exponent q),
            exponent = exponent q\<rparr>
      else \<lparr>mantissa = mantissa q * 10 ^ nat (exponent q - exponent y) + mantissa y,
            exponent = exponent y\<rparr>)"

text \<open>The number a quantity stands for, as a rational.\<close>

definition amount :: "Quantity \<Rightarrow> rat" where
  "amount q = of_int (mantissa q) * 10 powi exponent q"

subsection \<open>\<^verbatim>\<open>k8s.io/api/core/v1\<close>: the Pod\<close>

type_synonym ResourceName = string
type_synonym ResourceList = "ResourceName \<rightharpoonup> Quantity"

definition ResourceCPU :: ResourceName where
  "ResourceCPU = ''cpu''"

definition ResourceMemory :: ResourceName where
  "ResourceMemory = ''memory''"

record ResourceRequirements =
  Limits :: ResourceList
  Requests :: ResourceList

record Container =
  Name :: string
  Resources :: ResourceRequirements

record PodSpec =
  Containers :: "Container list"

record Pod =
  Spec :: PodSpec

subsection \<open>\<^verbatim>\<open>k8s.io/api/admission/v1\<close>: the AdmissionReview envelope\<close>

record TypeMeta =
  Kind :: string
  APIVersion :: string

record GroupVersionKind =
  GVK_Group :: string
  GVK_Version :: string
  GVK_Kind :: string

record RawExtension =
  Raw :: bytes

record AdmissionRequest =
  Request_UID :: string
  Request_Kind :: GroupVersionKind
  Request_Object :: RawExtension

record AdmissionResponse =
  Response_UID :: string
  Allowed :: bool

record AdmissionReview =
  TypeMeta :: TypeMeta
  Request :: "AdmissionRequest option"
  Response :: "AdmissionResponse option"

subsection \<open>\<^verbatim>\<open>encoding/json\<close>\<close>

text \<open>
  The JSON decoder and encoder are library code. They are parameters of the model: the
  decoder for each of the two target types the program decodes into, and the encoder for
  the one type it encodes. \<open>Inl\<close> carries the error the call returns.
\<close>

record Json =
  Unmarshal_AdmissionReview :: "bytes \<Rightarrow> error + AdmissionReview"
  Unmarshal_Pod :: "bytes \<Rightarrow> error + Pod"
  Marshal :: "AdmissionReview \<Rightarrow> error + bytes"

subsection \<open>\<^verbatim>\<open>net/http\<close>: request and response writer\<close>

text \<open>
  Of the request only the body is read: \<open>Body\<close> is what \<^verbatim>\<open>io.ReadAll(req.Body)\<close> gives,
  an error or the bytes. The response writer holds the header map, the status code once
  it has been written and the bytes written so far. As in \<^verbatim>\<open>net/http\<close>, only the first
  \<^verbatim>\<open>WriteHeader\<close> counts and a \<^verbatim>\<open>Write\<close> before any \<^verbatim>\<open>WriteHeader\<close> sends status 200.
\<close>

record http_Request =
  Body :: "error + bytes"

record ResponseWriter =
  header :: "string \<rightharpoonup> string"
  statusCode :: "nat option"
  written :: bytes

definition StatusOK :: nat where
  "StatusOK = 200"

definition StatusBadRequest :: nat where
  "StatusBadRequest = 400"

definition StatusInternalServerError :: nat where
  "StatusInternalServerError = 500"

definition WriteHeader :: "ResponseWriter \<Rightarrow> nat \<Rightarrow> ResponseWriter" where
  "WriteHeader w code = (if statusCode w = None then w\<lparr>statusCode := Some code\<rparr> else w)"

definition Write :: "ResponseWriter \<Rightarrow> bytes \<Rightarrow> ResponseWriter" where
  "Write w data =
     (let w1 = (if statusCode w = None then WriteHeader w StatusOK else w)
      in w1\<lparr>written := written w1 @ data\<rparr>)"

definition Header_Set :: "ResponseWriter \<Rightarrow> string \<Rightarrow> string \<Rightarrow> ResponseWriter" where
  "Header_Set w k v = w\<lparr>header := (header w)(k \<mapsto> v)\<rparr>"

text \<open>\<^verbatim>\<open>http.Error(w, error, code)\<close>: plain-text headers, the status, the message and a newline.\<close>

definition http_Error :: "ResponseWriter \<Rightarrow> string \<Rightarrow> nat \<Rightarrow> ResponseWriter" where
  "http_Error w msg code =
     (let w1 = Header_Set w ''Content-Type'' ''text/plain; charset=utf-8'';
          w2 = Header_Set w1 ''X-Content-Type-Options'' ''nosniff'';
          w3 = WriteHeader w2 code
      in Write w3 (msg @ [CHR 0x0A]))"

text \<open>
  \<^verbatim>\<open>json.NewEncoder(w).Encode(v)\<close>: the value is marshalled first; on success the text and
  a newline are written to \<open>w\<close>, on failure nothing is written and the error is returned.
\<close>

definition Encode :: "Json \<Rightarrow> ResponseWriter \<Rightarrow> AdmissionReview \<Rightarrow> ResponseWriter \<times> error option" where
  "Encode json w v =
     (case Marshal json v of
        Inl err \<Rightarrow> (w, Some err)
      | Inr text \<Rightarrow> (Write w (text @ [CHR 0x0A]), None))"

subsection \<open>The log\<close>

text \<open>
  The log file is the only state that outlives a request. A log call is recorded with its
  format and its arguments; an argument \<open>Q q\<close> is the text \<^verbatim>\<open>q.String()\<close> of a quantity,
  recorded as the quantity printed.
\<close>

datatype arg = S string | Q Quantity

datatype log_call =
  log_Print "arg list"
| log_Println "arg list"
| log_Printf string "arg list"
| slog_Error string "arg list"

type_synonym log = "log_call list"

subsection \<open>\<^verbatim>\<open>httpError\<close>\<close>

definition httpError :: "ResponseWriter \<Rightarrow> log \<Rightarrow> error \<Rightarrow> ResponseWriter \<times> log" where
  "httpError w lg err =
     (let lg1 = lg @ [slog_Error ''unable to complete request'' [S ''error'', S err]];
          w1 = WriteHeader w StatusBadRequest;
          w2 = Write w1 err
      in (w2, lg1))"

subsection \<open>\<^verbatim>\<open>parseAdmissionReview\<close>\<close>

text \<open>
  The Go function returns a pointer and an error: \<open>(None, Some err)\<close> on either failure,
  \<open>(Some review, None)\<close> on success.
\<close>

definition parseAdmissionReview ::
  "Json \<Rightarrow> http_Request \<Rightarrow> log \<Rightarrow> (AdmissionReview option \<times> error option) \<times> log" where
  "parseAdmissionReview json req lg =
     (case Body req of
        Inl err \<Rightarrow> ((None, Some err), lg @ [log_Print [S ''error reading request body'', S err]])
      | Inr reqData \<Rightarrow>
          (case Unmarshal_AdmissionReview json reqData of
             Inl err \<Rightarrow>
               ((None, Some err), lg @ [log_Printf ''Error deserializing request: %v'' [S err]])
           | Inr admissionReviewRequest \<Rightarrow> ((Some admissionReviewRequest, None), lg)))"

subsection \<open>\<^verbatim>\<open>handleAdmissionReview\<close>\<close>

text \<open>
  The loop over \<^verbatim>\<open>pod.Spec.Containers\<close> (lines 73 to 85). The state is the two running
  totals, in the order of their declaration, and the log.
\<close>

fun containers_loop :: "Container list \<Rightarrow> Quantity \<times> Quantity \<times> log \<Rightarrow> Quantity \<times> Quantity \<times> log" where
  "containers_loop [] st = st"
| "containers_loop (container # rest) (totalMemory, totalCPU, lg) =
     (let (totalCPU1, lg1) =
            (case Requests (Resources container) ResourceCPU of
               Some cpu \<Rightarrow>
                 (Quantity_Add totalCPU cpu,
                  lg @ [log_Printf ''Container %s requests %s of CPU'' [S (Name container), Q cpu]])
             | None \<Rightarrow> (totalCPU, lg));
          (totalMemory1, lg2) =
            (case Requests (Resources container) ResourceMemory of
               Some memory \<Rightarrow>
                 (Quantity_Add totalMemory memory,
                  lg1 @ [log_Printf ''Container %s requests %s of memory'' [S (Name container), Q memory]])
             | None \<Rightarrow> (totalMemory, lg1))
      in containers_loop rest (totalMemory1, totalCPU1, lg2))"

text \<open>
  The value built at lines 92 to 100: the response, and the envelope around it. Every
  field the struct literals leave out has its zero value.
\<close>

definition admissionResponse :: "AdmissionRequest \<Rightarrow> AdmissionResponse" where
  "admissionResponse request = \<lparr>Response_UID = Request_UID request, Allowed = True\<rparr>"

definition admissionReviewResponse :: "AdmissionRequest \<Rightarrow> AdmissionReview" where
  "admissionReviewResponse request =
     \<lparr>TypeMeta = \<lparr>Kind = '''', APIVersion = ''''\<rparr>,
      Request = None,
      Response = Some (admissionResponse request)\<rparr>"

text \<open>
  An invocation either returns, leaving a response writer and a log, or panics on a nil
  pointer; \<^verbatim>\<open>net/http\<close> recovers a handler's panic and drops the connection, so that
  nothing of the writer reaches the client.
\<close>

datatype outcome = Panic ResponseWriter log | Return ResponseWriter log

definition handleAdmissionReview :: "Json \<Rightarrow> ResponseWriter \<Rightarrow> http_Request \<Rightarrow> log \<Rightarrow> outcome" where
  "handleAdmissionReview json w r lg =
     (let lg1 = lg @ [log_Println [S ''In handleAdmissionReview ...'']];
          ((admissionReviewRequest, err), lg2) = parseAdmissionReview json r lg1
      in case admissionReviewRequest of
           None \<Rightarrow> Panic w lg2
         | Some review \<Rightarrow>
             (case Request review of
                None \<Rightarrow> Panic w lg2
              | Some request \<Rightarrow>
                  if GVK_Kind (Request_Kind request) \<noteq> ''Pod''
                  then (let (w1, lg3) =
                              httpError w lg2
                                (''expected request for kind Pod but got '' @ GVK_Kind (Request_Kind request))
                        in Return w1 lg3)
                  else
                    (case Unmarshal_Pod json (Raw (Request_Object request)) of
                       Inl err1 \<Rightarrow> (let (w1, lg3) = httpError w lg2 err1 in Return w1 lg3)
                     | Inr pod \<Rightarrow>
                         (let lg3 = lg2 @ [log_Println [S ''Successfully decoded AdmissionReview'']];
                              (totalMemory, totalCPU, lg4) =
                                containers_loop (Containers (Spec pod)) (Quantity_zero, Quantity_zero, lg3);
                              lg5 = lg4 @ [log_Printf (''Total Memory Requested: %s'' @ [CHR 0x0A]) [Q totalMemory]];
                              lg6 = lg5 @ [log_Printf (''Total CPU Requested: %s'' @ [CHR 0x0A]) [Q totalCPU]];
                              w1 = Header_Set w ''Content-Type'' ''application/json''
                          in case Encode json w1 (admissionReviewResponse request) of
                               (w2, None) \<Rightarrow> Return w2 lg6
                             | (w2, Some err2) \<Rightarrow>
                                 Return (http_Error w2 ''could not encode response'' StatusInternalServerError)
                                        (lg6 @ [log_Printf ''could not encode response: %v'' [S err2]])))))"

subsection \<open>What a client and a reader of the log observe\<close>

text \<open>
  The client receives the response writer of an invocation that returned, and nothing of
  one that panicked. The log is kept in both cases.
\<close>

fun response :: "outcome \<Rightarrow> ResponseWriter option" where
  "response (Panic w lg) = None"
| "response (Return w lg) = Some w"

fun log_of :: "outcome \<Rightarrow> log" where
  "log_of (Panic w lg) = lg"
| "log_of (Return w lg) = lg"

text \<open>The writer \<^verbatim>\<open>net/http\<close> hands to a handler: no header, no status, no byte.\<close>

definition new_ResponseWriter :: ResponseWriter where
  "new_ResponseWriter = \<lparr>header = Map.empty, statusCode = None, written = []\<rparr>"

subsection \<open>The totals as the specification words them\<close>

text \<open>
  The entries of one resource name over the containers that have one, in order, and the
  exact sum of a list of quantities as a rational number.
\<close>

definition entries :: "ResourceName \<Rightarrow> Container list \<Rightarrow> Quantity list" where
  "entries name cs = List.map_filter (\<lambda>c. Requests (Resources c) name) cs"

definition exact_sum :: "Quantity list \<Rightarrow> rat" where
  "exact_sum qs = sum_list (map amount qs)"

text \<open>The log lines one round of the loop adds.\<close>

definition container_lines :: "Container \<Rightarrow> log" where
  "container_lines c =
     (case Requests (Resources c) ResourceCPU of
        Some cpu \<Rightarrow> [log_Printf ''Container %s requests %s of CPU'' [S (Name c), Q cpu]]
      | None \<Rightarrow> []) @
     (case Requests (Resources c) ResourceMemory of
        Some memory \<Rightarrow> [log_Printf ''Container %s requests %s of memory'' [S (Name c), Q memory]]
      | None \<Rightarrow> [])"

text \<open>Two containers with the same \<^verbatim>\<open>cpu\<close> and \<^verbatim>\<open>memory\<close> entries in \<^verbatim>\<open>Requests\<close>.\<close>

definition same_requests :: "Container \<Rightarrow> Container \<Rightarrow> bool" where
  "same_requests c d =
     (Requests (Resources c) ResourceCPU = Requests (Resources d) ResourceCPU \<and>
      Requests (Resources c) ResourceMemory = Requests (Resources d) ResourceMemory)"

subsection \<open>Sample requests\<close>

text \<open>
  Concrete inputs on which the theorems below are evaluated. \<open>sample_json\<close> stands in for
  \<^verbatim>\<open>encoding/json\<close> on these inputs: it decodes each sample body to the struct the
  library decodes it to, answers every other body with an error (it is no JSON parser),
  and encodes an envelope as the library does, leaving out an empty kind, an empty
  apiVersion and a nil request or response.
\<close>

definition sample_uid :: string where
  "sample_uid = ''705ab4f5-6393-11e8-b7cc-42010a800002''"

definition raw_pod :: bytes where
  \<open>raw_pod = ''{"spec":{"containers":[{"name":"app","resources":{"requests":{"cpu":"500m","memory":"128Mi"}}},{"name":"sidecar","resources":{"requests":{"cpu":"500m","memory":"256Mi"}}}]}}''\<close>

definition raw_bad_pod :: bytes where
  \<open>raw_bad_pod = ''{"spec":7}''\<close>

definition body_pod :: bytes where
  \<open>body_pod = ''{"kind":"AdmissionReview","apiVersion":"admission.k8s.io/v1","request":{"uid":"705ab4f5-6393-11e8-b7cc-42010a800002","kind":{"group":"","version":"v1","kind":"Pod"},"object":'' @ raw_pod @ ''}}''\<close>

definition body_bad_pod :: bytes where
  \<open>body_bad_pod = ''{"kind":"AdmissionReview","apiVersion":"admission.k8s.io/v1","request":{"uid":"705ab4f5-6393-11e8-b7cc-42010a800002","kind":{"group":"","version":"v1","kind":"Pod"},"object":'' @ raw_bad_pod @ ''}}''\<close>

definition body_deployment :: bytes where
  \<open>body_deployment = ''{"kind":"AdmissionReview","apiVersion":"admission.k8s.io/v1","request":{"uid":"705ab4f5-6393-11e8-b7cc-42010a800002","kind":{"group":"apps","version":"v1","kind":"Deployment"},"object":{}}}''\<close>

definition sample_pod :: Pod where
  "sample_pod =
     \<lparr>Spec = \<lparr>Containers =
        [\<lparr>Name = ''app'',
          Resources = \<lparr>Limits = Map.empty,
                       Requests = [''cpu'' \<mapsto> \<lparr>mantissa = 500, exponent = -3\<rparr>,
                                   ''memory'' \<mapsto> \<lparr>mantissa = 134217728, exponent = 0\<rparr>]\<rparr>\<rparr>,
         \<lparr>Name = ''sidecar'',
          Resources = \<lparr>Limits = Map.empty,
                       Requests = [''cpu'' \<mapsto> \<lparr>mantissa = 500, exponent = -3\<rparr>,
                                   ''memory'' \<mapsto> \<lparr>mantissa = 268435456, exponent = 0\<rparr>]\<rparr>\<rparr>]\<rparr>\<rparr>"

definition request_pod :: AdmissionRequest where
  "request_pod =
     \<lparr>Request_UID = sample_uid,
      Request_Kind = \<lparr>GVK_Group = '''', GVK_Version = ''v1'', GVK_Kind = ''Pod''\<rparr>,
      Request_Object = \<lparr>Raw = raw_pod\<rparr>\<rparr>"

definition request_bad_pod :: AdmissionRequest where
  "request_bad_pod = request_pod\<lparr>Request_Object := \<lparr>Raw = raw_bad_pod\<rparr>\<rparr>"

definition request_deployment :: AdmissionRequest where
  "request_deployment =
     \<lparr>Request_UID = sample_uid,
      Request_Kind = \<lparr>GVK_Group = ''apps'', GVK_Version = ''v1'', GVK_Kind = ''Deployment''\<rparr>,
      Request_Object = \<lparr>Raw = ''{}''\<rparr>\<rparr>"

definition review_of :: "AdmissionRequest \<Rightarrow> AdmissionReview" where
  "review_of request =
     \<lparr>TypeMeta = \<lparr>Kind = ''AdmissionReview'', APIVersion = ''admission.k8s.io/v1''\<rparr>,
      Request = Some request,
      Response = None\<rparr>"

definition empty_review :: AdmissionReview where
  "empty_review = \<lparr>TypeMeta = \<lparr>Kind = '''', APIVersion = ''''\<rparr>, Request = None, Response = None\<rparr>"

fun join :: "string list \<Rightarrow> string" where
  "join [] = []"
| "join [x] = x"
| "join (x # y # ys) = x @ '','' @ join (y # ys)"

definition sample_Marshal :: "AdmissionReview \<Rightarrow> error + bytes" where
  \<open>sample_Marshal v =
     Inr (''{'' @
          join ((if Kind (TypeMeta v) = [] then [] else [''"kind":"'' @ Kind (TypeMeta v) @ ''"'']) @
                (if APIVersion (TypeMeta v) = [] then []
                 else [''"apiVersion":"'' @ APIVersion (TypeMeta v) @ ''"'']) @
                (case Request v of
                   None \<Rightarrow> []
                 | Some request \<Rightarrow> [''"request":{"uid":"'' @ Request_UID request @ ''"}'']) @
                (case Response v of
                   None \<Rightarrow> []
                 | Some resp \<Rightarrow>
                     [''"response":{"uid":"'' @ Response_UID resp @ ''","allowed":'' @
                      (if Allowed resp then ''true'' else ''false'') @ ''}''])) @
          ''}'')\<close>

definition sample_json :: Json where
  "sample_json =
     \<lparr>Unmarshal_AdmissionReview =
        (\<lambda>data. if data = body_pod then Inr (review_of request_pod)
                else if data = body_bad_pod then Inr (review_of request_bad_pod)
                else if data = body_deployment then Inr (review_of request_deployment)
                else if data = ''{}'' then Inr empty_review
                else Inl ''invalid character''),
      Unmarshal_Pod =
        (\<lambda>data. if data = raw_pod then Inr sample_pod
                else Inl ''json: cannot unmarshal number into Go struct field Pod.spec of type v1.PodSpec''),
      Marshal = sample_Marshal\<rparr>"

definition http_request :: "bytes \<Rightarrow> http_Request" where
  "http_request data = \<lparr>Body = Inr data\<rparr>"

text \<open>
  Two containers that request the same CPU and no memory; the second also has limits and
  a request for ephemeral storage.
\<close>

definition container_plain :: Container where
  "container_plain =
     \<lparr>Name = ''app'',
      Resources = \<lparr>Limits = Map.empty,
                   Requests = [''cpu'' \<mapsto> \<lparr>mantissa = 500, exponent = -3\<rparr>]\<rparr>\<rparr>"

definition container_extras :: Container where
  "container_extras =
     \<lparr>Name = ''app'',
      Resources = \<lparr>Limits = [''cpu'' \<mapsto> \<lparr>mantissa = 2, exponent = 0\<rparr>,
                             ''memory'' \<mapsto> \<lparr>mantissa = 1073741824, exponent = 0\<rparr>],
                   Requests = [''cpu'' \<mapsto> \<lparr>mantissa = 500, exponent = -3\<rparr>,
                               ''ephemeral-storage'' \<mapsto> \<lparr>mantissa = 2147483648, exponent = 0\<rparr>]\<rparr>\<rparr>"

subsection \<open>The log of a request that is answered\<close>

text \<open>
  What the handler appends to the log when the request is for a Pod and the Pod decodes,
  up to and including the two lines of the totals.
\<close>

definition success_log :: "Pod \<Rightarrow> log" where
  "success_log pod =
     [log_Println [S ''In handleAdmissionReview ...''],
      log_Println [S ''Successfully decoded AdmissionReview'']] @
     concat (map container_lines (Containers (Spec pod))) @
     [log_Printf (''Total Memory Requested: %s'' @ [CHR 0x0A])
        [Q (foldl Quantity_Add Quantity_zero (entries ResourceMemory (Containers (Spec pod))))],
      log_Printf (''Total CPU Requested: %s'' @ [CHR 0x0A])
        [Q (foldl Quantity_Add Quantity_zero (entries ResourceCPU (Containers (Spec pod))))]]"

section \<open>Properties\<close>

subsection \<open>Quantities and the loop\<close>

lemma Quantity_Add_exact: "amount (Quantity_Add q y) = amount q + amount y"
proof (cases "exponent q \<le> exponent y")
  case True
  then have "exponent y = exponent q + int (nat (exponent y - exponent q))" by simp
  then have "(10::rat) powi exponent y = 10 powi exponent q * 10 ^ nat (exponent y - exponent q)"
    by (metis power_int_add power_int_of_nat zero_neq_numeral)
  with True show ?thesis
    by (simp add: Quantity_Add_def amount_def algebra_simps)
next
  case False
  then have "exponent q = exponent y + int (nat (exponent q - exponent y))" by simp
  then have "(10::rat) powi exponent q = 10 powi exponent y * 10 ^ nat (exponent q - exponent y)"
    by (metis power_int_add power_int_of_nat zero_neq_numeral)
  with False show ?thesis
    by (simp add: Quantity_Add_def amount_def algebra_simps)
qed

lemma amount_zero: "amount Quantity_zero = 0"
  by (simp add: amount_def Quantity_zero_def)

lemma amount_foldl: "amount (foldl Quantity_Add q qs) = amount q + exact_sum qs"
  by (induction qs arbitrary: q) (simp_all add: exact_sum_def Quantity_Add_exact)

text \<open>
  The loop in closed form: each total is the left fold of \<open>Quantity_Add\<close> over the
  entries of its resource name, and the log grows by the lines of each container.
\<close>

lemma containers_loop_eq:
  "containers_loop cs (totalMemory, totalCPU, lg) =
     (foldl Quantity_Add totalMemory (entries ResourceMemory cs),
      foldl Quantity_Add totalCPU (entries ResourceCPU cs),
      lg @ concat (map container_lines cs))"
proof (induction cs arbitrary: totalMemory totalCPU lg)
  case Nil
  show ?case by (simp add: entries_def)
next
  case (Cons c cs)
  show ?case
    by (cases "Requests (Resources c) ResourceCPU"; cases "Requests (Resources c) ResourceMemory")
       (simp_all add: Cons.IH entries_def container_lines_def)
qed

subsection \<open>The paths through the handler\<close>


lemma handle_no_review:
  assumes "parseAdmissionReview json r (lg @ [log_Println [S ''In handleAdmissionReview ...'']]) = ((None, err), lg')"
  shows "handleAdmissionReview json w r lg = Panic w lg'"
  using assms by (simp add: handleAdmissionReview_def)

lemma handle_no_request:
  assumes "parseAdmissionReview json r (lg @ [log_Println [S ''In handleAdmissionReview ...'']]) = ((Some review, err), lg')"
    and "Request review = None"
  shows "handleAdmissionReview json w r lg = Panic w lg'"
  using assms by (simp add: handleAdmissionReview_def)

lemma parse_ok:
  assumes "Body r = Inr data" and "Unmarshal_AdmissionReview json data = Inr review"
  shows "parseAdmissionReview json r lg = ((Some review, None), lg)"
  using assms by (simp add: parseAdmissionReview_def)

lemma handle_other_kind:
  assumes "Body r = Inr data" and "Unmarshal_AdmissionReview json data = Inr review"
    and "Request review = Some request" and "GVK_Kind (Request_Kind request) \<noteq> ''Pod''"
  shows "handleAdmissionReview json w r lg =
           Return (Write (WriteHeader w StatusBadRequest)
                     (''expected request for kind Pod but got '' @ GVK_Kind (Request_Kind request)))
                  (lg @ [log_Println [S ''In handleAdmissionReview ...''],
                         slog_Error ''unable to complete request''
                           [S ''error'', S (''expected request for kind Pod but got '' @ GVK_Kind (Request_Kind request))]])"
  using assms by (simp add: handleAdmissionReview_def parse_ok httpError_def)

lemma handle_bad_pod:
  assumes "Body r = Inr data" and "Unmarshal_AdmissionReview json data = Inr review"
    and "Request review = Some request" and "GVK_Kind (Request_Kind request) = ''Pod''"
    and "Unmarshal_Pod json (Raw (Request_Object request)) = Inl err"
  shows "handleAdmissionReview json w r lg =
           Return (Write (WriteHeader w StatusBadRequest) err)
                  (lg @ [log_Println [S ''In handleAdmissionReview ...''],
                         slog_Error ''unable to complete request'' [S ''error'', S err]])"
  using assms by (simp add: handleAdmissionReview_def parse_ok httpError_def)

lemma handle_pod:
  assumes "Body r = Inr data" and "Unmarshal_AdmissionReview json data = Inr review"
    and "Request review = Some request" and "GVK_Kind (Request_Kind request) = ''Pod''"
    and "Unmarshal_Pod json (Raw (Request_Object request)) = Inr pod"
  shows "handleAdmissionReview json w r lg =
           (case Marshal json (admissionReviewResponse request) of
              Inr text \<Rightarrow>
                Return (Write (Header_Set w ''Content-Type'' ''application/json'') (text @ [CHR 0x0A]))
                       (lg @ success_log pod)
            | Inl err \<Rightarrow>
                Return (http_Error (Header_Set w ''Content-Type'' ''application/json'')
                          ''could not encode response'' StatusInternalServerError)
                       (lg @ success_log pod @ [log_Printf ''could not encode response: %v'' [S err]]))"
  using assms
  by (simp add: handleAdmissionReview_def parse_ok containers_loop_eq Encode_def success_log_def
           split: sum.split)

subsection \<open>The sample decoder on the sample bodies\<close>

lemma sample_bodies_distinct:
  "body_bad_pod \<noteq> body_pod" "body_deployment \<noteq> body_pod" "body_deployment \<noteq> body_bad_pod"
  "''{}'' \<noteq> body_pod" "''{}'' \<noteq> body_bad_pod" "''{}'' \<noteq> body_deployment"
  "''not json'' \<noteq> body_pod" "''not json'' \<noteq> body_bad_pod" "''not json'' \<noteq> body_deployment"
  "raw_bad_pod \<noteq> raw_pod"
  by (simp_all add: body_pod_def body_bad_pod_def body_deployment_def raw_pod_def raw_bad_pod_def)

lemma sample_json_decodes:
  "Unmarshal_AdmissionReview sample_json body_pod = Inr (review_of request_pod)"
  "Unmarshal_AdmissionReview sample_json body_bad_pod = Inr (review_of request_bad_pod)"
  "Unmarshal_AdmissionReview sample_json body_deployment = Inr (review_of request_deployment)"
  "Unmarshal_AdmissionReview sample_json ''{}'' = Inr empty_review"
  "Unmarshal_AdmissionReview sample_json ''not json'' = Inl ''invalid character''"
  "Unmarshal_Pod sample_json raw_pod = Inr sample_pod"
  "Unmarshal_Pod sample_json raw_bad_pod =
     Inl ''json: cannot unmarshal number into Go struct field Pod.spec of type v1.PodSpec''"
  by (simp_all add: sample_json_def sample_bodies_distinct)

lemma sample_requests:
  "Request (review_of request) = Some request"
  "Request empty_review = None"
  "GVK_Kind (Request_Kind request_pod) = ''Pod''"
  "GVK_Kind (Request_Kind request_bad_pod) = ''Pod''"
  "GVK_Kind (Request_Kind request_deployment) = ''Deployment''"
  "Raw (Request_Object request_pod) = raw_pod"
  "Raw (Request_Object request_bad_pod) = raw_bad_pod"
  "Request_UID request_pod = sample_uid"
  "Body (http_request data) = Inr data"
  by (simp_all add: review_of_def empty_review_def request_pod_def request_bad_pod_def
        request_deployment_def http_request_def)

lemma sample_Marshal_response:
  \<open>Marshal sample_json (admissionReviewResponse request_pod) =
     Inr ''{"response":{"uid":"705ab4f5-6393-11e8-b7cc-42010a800002","allowed":true}}''\<close>
  by (simp add: sample_json_def sample_Marshal_def admissionReviewResponse_def admissionResponse_def
        request_pod_def sample_uid_def)

subsection \<open>The answer to a request for a Pod\<close>

text \<open>
  C1. When the body decodes to an envelope whose request names the kind \<^verbatim>\<open>Pod\<close> and the
  embedded object decodes as a Pod, the handler returns, and what the client receives is
  the encoding of an envelope whose response carries the UID of the request (or, should
  the encoder fail on that envelope, the status 500).
\<close>

theorem response_uid_equals_request_uid:
  assumes "Body r = Inr data" and "Unmarshal_AdmissionReview json data = Inr review"
    and "Request review = Some request" and "GVK_Kind (Request_Kind request) = ''Pod''"
    and "Unmarshal_Pod json (Raw (Request_Object request)) = Inr pod"
  shows "\<exists>envelope resp.
           Response envelope = Some resp \<and> Response_UID resp = Request_UID request \<and>
           response (handleAdmissionReview json w r lg) =
             Some (case Marshal json envelope of
                     Inr text \<Rightarrow> Write (Header_Set w ''Content-Type'' ''application/json'') (text @ [CHR 0x0A])
                   | Inl err \<Rightarrow> http_Error (Header_Set w ''Content-Type'' ''application/json'')
                                 ''could not encode response'' StatusInternalServerError)"
proof -
  let ?envelope = "admissionReviewResponse request"
  have "Response ?envelope = Some (admissionResponse request)"
    by (simp add: admissionReviewResponse_def)
  moreover have "Response_UID (admissionResponse request) = Request_UID request"
    by (simp add: admissionResponse_def)
  moreover have "response (handleAdmissionReview json w r lg) =
             Some (case Marshal json ?envelope of
                     Inr text \<Rightarrow> Write (Header_Set w ''Content-Type'' ''application/json'') (text @ [CHR 0x0A])
                   | Inl err \<Rightarrow> http_Error (Header_Set w ''Content-Type'' ''application/json'')
                                 ''could not encode response'' StatusInternalServerError)"
    by (simp add: handle_pod [OF assms] split: sum.split)
  ultimately show ?thesis by blast
qed

theorem response_uid_equals_request_uid_witness:
  "Body (http_request body_pod) = Inr body_pod \<and>
   Unmarshal_AdmissionReview sample_json body_pod = Inr (review_of request_pod) \<and>
   Request (review_of request_pod) = Some request_pod \<and>
   GVK_Kind (Request_Kind request_pod) = ''Pod'' \<and>
   Unmarshal_Pod sample_json (Raw (Request_Object request_pod)) = Inr sample_pod \<and>
   (\<exists>envelope resp.
      Response envelope = Some resp \<and> Response_UID resp = sample_uid \<and>
      response (handleAdmissionReview sample_json new_ResponseWriter (http_request body_pod) []) =
        Some (case Marshal sample_json envelope of
                Inr text \<Rightarrow> Write (Header_Set new_ResponseWriter ''Content-Type'' ''application/json'') (text @ [CHR 0x0A])
              | Inl err \<Rightarrow> http_Error (Header_Set new_ResponseWriter ''Content-Type'' ''application/json'')
                            ''could not encode response'' StatusInternalServerError))"
proof -
  have h: "Body (http_request body_pod) = Inr body_pod"
    "Unmarshal_AdmissionReview sample_json body_pod = Inr (review_of request_pod)"
    "Request (review_of request_pod) = Some request_pod"
    "GVK_Kind (Request_Kind request_pod) = ''Pod''"
    "Unmarshal_Pod sample_json (Raw (Request_Object request_pod)) = Inr sample_pod"
    by (simp_all add: sample_requests sample_json_decodes)
  show ?thesis
    using h response_uid_equals_request_uid [OF h, of new_ResponseWriter "[]"]
    by (simp add: sample_requests)
qed

text \<open>
  C5. Under the same conditions the response of the envelope that is encoded has
  \<open>Allowed\<close> set, whatever the Pod is: no field of the Pod and neither total enters the
  decision.
\<close>
theorem pod_request_always_allowed:
  assumes "Body r = Inr data" and "Unmarshal_AdmissionReview json data = Inr review"
    and "Request review = Some request" and "GVK_Kind (Request_Kind request) = ''Pod''"
    and "Unmarshal_Pod json (Raw (Request_Object request)) = Inr pod"
  shows "\<exists>envelope resp.
           Response envelope = Some resp \<and> Allowed resp \<and>
           response (handleAdmissionReview json w r lg) =
             Some (case Marshal json envelope of
                     Inr text \<Rightarrow> Write (Header_Set w ''Content-Type'' ''application/json'') (text @ [CHR 0x0A])
                   | Inl err \<Rightarrow> http_Error (Header_Set w ''Content-Type'' ''application/json'')
                                 ''could not encode response'' StatusInternalServerError)"
proof -
  let ?envelope = "admissionReviewResponse request"
  have "Response ?envelope = Some (admissionResponse request)"
    by (simp add: admissionReviewResponse_def)
  moreover have "Allowed (admissionResponse request)"
    by (simp add: admissionResponse_def)
  moreover have "response (handleAdmissionReview json w r lg) =
             Some (case Marshal json ?envelope of
                     Inr text \<Rightarrow> Write (Header_Set w ''Content-Type'' ''application/json'') (text @ [CHR 0x0A])
                   | Inl err \<Rightarrow> http_Error (Header_Set w ''Content-Type'' ''application/json'')
                                 ''could not encode response'' StatusInternalServerError)"
    by (simp add: handle_pod [OF assms] split: sum.split)
  ultimately show ?thesis by blast
qed

theorem pod_request_always_allowed_witness:
  "Body (http_request body_pod) = Inr body_pod \<and>
   Unmarshal_AdmissionReview sample_json body_pod = Inr (review_of request_pod) \<and>
   Request (review_of request_pod) = Some request_pod \<and>
   GVK_Kind (Request_Kind request_pod) = ''Pod'' \<and>
   Unmarshal_Pod sample_json (Raw (Request_Object request_pod)) = Inr sample_pod \<and>
   (\<exists>envelope resp.
      Response envelope = Some resp \<and> Allowed resp \<and>
      response (handleAdmissionReview sample_json new_ResponseWriter (http_request body_pod) []) =
        Some (case Marshal sample_json envelope of
                Inr text \<Rightarrow> Write (Header_Set new_ResponseWriter ''Content-Type'' ''application/json'') (text @ [CHR 0x0A])
              | Inl err \<Rightarrow> http_Error (Header_Set new_ResponseWriter ''Content-Type'' ''application/json'')
                            ''could not encode response'' StatusInternalServerError))"
proof -
  have h: "Body (http_request body_pod) = Inr body_pod"
    "Unmarshal_AdmissionReview sample_json body_pod = Inr (review_of request_pod)"
    "Request (review_of request_pod) = Some request_pod"
    "GVK_Kind (Request_Kind request_pod) = ''Pod''"
    "Unmarshal_Pod sample_json (Raw (Request_Object request_pod)) = Inr sample_pod"
    by (simp_all add: sample_requests sample_json_decodes)
  show ?thesis
    using h pod_request_always_allowed [OF h, of new_ResponseWriter "[]"]
    by simp
qed

subsection \<open>Requests that are refused\<close>

text \<open>
  C4. When the body decodes to an envelope with a request whose kind is not \<^verbatim>\<open>Pod\<close>, the
  handler returns with status 400 (hence not 200) and a body that is the message
  \<^verbatim>\<open>expected request for kind Pod but got\<close> followed by the kind received; the header
  map is untouched, so no JSON answer is announced.
\<close>
theorem other_kind_is_bad_request:
  assumes "Body r = Inr data" and "Unmarshal_AdmissionReview json data = Inr review"
    and "Request review = Some request" and "GVK_Kind (Request_Kind request) \<noteq> ''Pod''"
    and "statusCode w = None"
  shows "\<exists>w' lg'.
           handleAdmissionReview json w r lg = Return w' lg' \<and>
           statusCode w' = Some StatusBadRequest \<and> statusCode w' \<noteq> Some StatusOK \<and>
           written w' = written w @ ''expected request for kind Pod but got '' @ GVK_Kind (Request_Kind request) \<and>
           header w' = header w"
  using assms(5)
  by (simp add: handle_other_kind [OF assms(1-4)] Write_def WriteHeader_def
        StatusBadRequest_def StatusOK_def)

theorem other_kind_is_bad_request_witness:
  "Body (http_request body_deployment) = Inr body_deployment \<and>
   Unmarshal_AdmissionReview sample_json body_deployment = Inr (review_of request_deployment) \<and>
   Request (review_of request_deployment) = Some request_deployment \<and>
   GVK_Kind (Request_Kind request_deployment) \<noteq> ''Pod'' \<and>
   statusCode new_ResponseWriter = None \<and>
   (\<exists>w' lg'.
      handleAdmissionReview sample_json new_ResponseWriter (http_request body_deployment) [] = Return w' lg' \<and>
      statusCode w' = Some 400 \<and> statusCode w' \<noteq> Some 200 \<and>
      written w' = ''expected request for kind Pod but got Deployment'' \<and>
      header w' = Map.empty)"
proof -
  have h: "Body (http_request body_deployment) = Inr body_deployment"
    "Unmarshal_AdmissionReview sample_json body_deployment = Inr (review_of request_deployment)"
    "Request (review_of request_deployment) = Some request_deployment"
    "GVK_Kind (Request_Kind request_deployment) \<noteq> ''Pod''"
    "statusCode new_ResponseWriter = None"
    by (simp_all add: sample_requests sample_json_decodes new_ResponseWriter_def)
  show ?thesis
    using h other_kind_is_bad_request [OF h, of "[]"]
    by (simp add: sample_requests new_ResponseWriter_def StatusBadRequest_def StatusOK_def)
qed

text \<open>
  C7. When the request is for a Pod and the raw bytes of its object do not decode as a
  Pod, the handler logs the error and returns with status 400 and the text of the decoding
  error as body.
\<close>
theorem undecodable_pod_is_bad_request:
  assumes "Body r = Inr data" and "Unmarshal_AdmissionReview json data = Inr review"
    and "Request review = Some request" and "GVK_Kind (Request_Kind request) = ''Pod''"
    and "Unmarshal_Pod json (Raw (Request_Object request)) = Inl err"
    and "statusCode w = None"
  shows "\<exists>w' lg'.
           handleAdmissionReview json w r lg = Return w' lg' \<and>
           statusCode w' = Some StatusBadRequest \<and>
           written w' = written w @ err \<and>
           header w' = header w \<and>
           lg' = lg @ [log_Println [S ''In handleAdmissionReview ...''],
                       slog_Error ''unable to complete request'' [S ''error'', S err]]"
  using assms(6)
  by (simp add: handle_bad_pod [OF assms(1-5)] Write_def WriteHeader_def StatusBadRequest_def)

theorem undecodable_pod_is_bad_request_witness:
  "Body (http_request body_bad_pod) = Inr body_bad_pod \<and>
   Unmarshal_AdmissionReview sample_json body_bad_pod = Inr (review_of request_bad_pod) \<and>
   Request (review_of request_bad_pod) = Some request_bad_pod \<and>
   GVK_Kind (Request_Kind request_bad_pod) = ''Pod'' \<and>
   Unmarshal_Pod sample_json (Raw (Request_Object request_bad_pod)) =
     Inl ''json: cannot unmarshal number into Go struct field Pod.spec of type v1.PodSpec'' \<and>
   statusCode new_ResponseWriter = None \<and>
   (\<exists>w' lg'.
      handleAdmissionReview sample_json new_ResponseWriter (http_request body_bad_pod) [] = Return w' lg' \<and>
      statusCode w' = Some 400 \<and>
      written w' = ''json: cannot unmarshal number into Go struct field Pod.spec of type v1.PodSpec'')"
proof -
  have h: "Body (http_request body_bad_pod) = Inr body_bad_pod"
    "Unmarshal_AdmissionReview sample_json body_bad_pod = Inr (review_of request_bad_pod)"
    "Request (review_of request_bad_pod) = Some request_bad_pod"
    "GVK_Kind (Request_Kind request_bad_pod) = ''Pod''"
    "Unmarshal_Pod sample_json (Raw (Request_Object request_bad_pod)) =
       Inl ''json: cannot unmarshal number into Go struct field Pod.spec of type v1.PodSpec''"
    "statusCode new_ResponseWriter = None"
    by (simp_all add: sample_requests sample_json_decodes new_ResponseWriter_def)
  show ?thesis
    using h undecodable_pod_is_bad_request [OF h, of "[]"]
    by (auto simp: new_ResponseWriter_def StatusBadRequest_def)
qed

subsection \<open>The unguarded dereference\<close>

lemma parse_failure:
  "Body r = Inl e \<Longrightarrow>
     parseAdmissionReview json r lg = ((None, Some e), lg @ [log_Print [S ''error reading request body'', S e]])"
  "Body r = Inr data \<Longrightarrow> Unmarshal_AdmissionReview json data = Inl e \<Longrightarrow>
     parseAdmissionReview json r lg = ((None, Some e), lg @ [log_Printf ''Error deserializing request: %v'' [S e]])"
  by (simp_all add: parseAdmissionReview_def)

text \<open>
  C9. The handler reads \<^verbatim>\<open>admissionReviewRequest.Request.Kind.Kind\<close> without looking at the
  error of \<^verbatim>\<open>parseAdmissionReview\<close> and without a nil guard. Whenever the parser returns a
  nil review (whatever error comes with it) or a review whose \<open>Request\<close> is nil, the
  invocation panics with the writer as it was handed in and the log as the parser left
  it: \<^verbatim>\<open>httpError\<close> is not called and the client receives no response.
\<close>
theorem nil_review_or_nil_request_panics:
  assumes "parseAdmissionReview json r (lg @ [log_Println [S ''In handleAdmissionReview ...'']]) =
             ((admissionReviewRequest, err), lg')"
    and "admissionReviewRequest = None \<or>
         (\<exists>review. admissionReviewRequest = Some review \<and> Request review = None)"
  shows "handleAdmissionReview json w r lg = Panic w lg' \<and>
         response (handleAdmissionReview json w r lg) = None"
  using assms by (auto simp: handle_no_review handle_no_request)

theorem nil_review_or_nil_request_panics_witness:
  "parseAdmissionReview sample_json (http_request ''{}'') ([] @ [log_Println [S ''In handleAdmissionReview ...'']]) =
     ((Some empty_review, None), [log_Println [S ''In handleAdmissionReview ...'']]) \<and>
   (Some empty_review = None \<or> (\<exists>review. Some empty_review = Some review \<and> Request review = None)) \<and>
   handleAdmissionReview sample_json new_ResponseWriter (http_request ''{}'') [] =
     Panic new_ResponseWriter [log_Println [S ''In handleAdmissionReview ...'']] \<and>
   response (handleAdmissionReview sample_json new_ResponseWriter (http_request ''{}'') []) = None \<and>
   parseAdmissionReview sample_json (http_request ''not json'') ([] @ [log_Println [S ''In handleAdmissionReview ...'']]) =
     ((None, Some ''invalid character''),
      [log_Println [S ''In handleAdmissionReview ...''],
       log_Printf ''Error deserializing request: %v'' [S ''invalid character'']]) \<and>
   response (handleAdmissionReview sample_json new_ResponseWriter (http_request ''not json'') []) = None"
proof -
  have h1: "parseAdmissionReview sample_json (http_request ''{}'') ([] @ [log_Println [S ''In handleAdmissionReview ...'']]) =
     ((Some empty_review, None), [log_Println [S ''In handleAdmissionReview ...'']])"
    by (simp add: parse_ok [OF sample_requests(9) sample_json_decodes(4)])
  have h2: "Some empty_review = None \<or> (\<exists>review. Some empty_review = Some review \<and> Request review = None)"
    by (simp add: sample_requests)
  have k1: "parseAdmissionReview sample_json (http_request ''not json'') ([] @ [log_Println [S ''In handleAdmissionReview ...'']]) =
     ((None, Some ''invalid character''),
      [log_Println [S ''In handleAdmissionReview ...''],
       log_Printf ''Error deserializing request: %v'' [S ''invalid character'']])"
    by (simp add: parse_failure(2) [OF sample_requests(9) sample_json_decodes(5)])
  have k2: "(None :: AdmissionReview option) = None \<or>
            (\<exists>review. (None :: AdmissionReview option) = Some review \<and> Request review = None)"
    by simp
  show ?thesis
    using h1 h2 k1
      nil_review_or_nil_request_panics [OF h1 h2, of new_ResponseWriter]
      nil_review_or_nil_request_panics [OF k1 k2, of new_ResponseWriter]
    by simp
qed

text \<open>
  C3. On the body \<^verbatim>\<open>not json\<close>, which the decoder rejects, the handler does not answer with
  status 400: it panics after the parser has logged the error, and the client receives no
  response.
\<close>
theorem unparseable_body_panics:
  "handleAdmissionReview sample_json new_ResponseWriter (http_request ''not json'') [] =
     Panic new_ResponseWriter
       [log_Println [S ''In handleAdmissionReview ...''],
        log_Printf ''Error deserializing request: %v'' [S ''invalid character'']] \<and>
   response (handleAdmissionReview sample_json new_ResponseWriter (http_request ''not json'') []) = None"
  by (simp add: handle_no_review [OF parse_failure(2) [OF sample_requests(9) sample_json_decodes(5)]])

subsection \<open>The totals\<close>

text \<open>
  C2. When the request is for a Pod that decodes, the handler logs, after the lines of the
  containers, the memory total and the CPU total, and each total stands for exactly the
  sum, as a rational number, of the entries of its resource name in \<open>Requests\<close> over the
  containers that have one. A container without the entry is not in \<open>entries\<close> and adds
  nothing.
\<close>
theorem totals_are_exact_sums:
  assumes "Body r = Inr data" and "Unmarshal_AdmissionReview json data = Inr review"
    and "Request review = Some request" and "GVK_Kind (Request_Kind request) = ''Pod''"
    and "Unmarshal_Pod json (Raw (Request_Object request)) = Inr pod"
  shows "\<exists>totalMemory totalCPU rest.
           log_of (handleAdmissionReview json w r lg) =
             lg @ [log_Println [S ''In handleAdmissionReview ...''],
                   log_Println [S ''Successfully decoded AdmissionReview'']] @
             concat (map container_lines (Containers (Spec pod))) @
             [log_Printf (''Total Memory Requested: %s'' @ [CHR 0x0A]) [Q totalMemory],
              log_Printf (''Total CPU Requested: %s'' @ [CHR 0x0A]) [Q totalCPU]] @ rest \<and>
           amount totalCPU = exact_sum (entries ResourceCPU (Containers (Spec pod))) \<and>
           amount totalMemory = exact_sum (entries ResourceMemory (Containers (Spec pod)))"
proof -
  let ?cs = "Containers (Spec pod)"
  let ?m = "foldl Quantity_Add Quantity_zero (entries ResourceMemory ?cs)"
  let ?c = "foldl Quantity_Add Quantity_zero (entries ResourceCPU ?cs)"
  have "amount ?c = exact_sum (entries ResourceCPU ?cs)"
    by (simp add: amount_foldl amount_zero)
  moreover have "amount ?m = exact_sum (entries ResourceMemory ?cs)"
    by (simp add: amount_foldl amount_zero)
  moreover have "\<exists>rest. log_of (handleAdmissionReview json w r lg) =
             lg @ [log_Println [S ''In handleAdmissionReview ...''],
                   log_Println [S ''Successfully decoded AdmissionReview'']] @
             concat (map container_lines ?cs) @
             [log_Printf (''Total Memory Requested: %s'' @ [CHR 0x0A]) [Q ?m],
              log_Printf (''Total CPU Requested: %s'' @ [CHR 0x0A]) [Q ?c]] @ rest"
    by (cases "Marshal json (admissionReviewResponse request)")
       (simp_all add: handle_pod [OF assms] success_log_def)
  ultimately show ?thesis by blast
qed

lemma sample_pod_entries:
  "entries ResourceCPU (Containers (Spec sample_pod)) =
     [\<lparr>mantissa = 500, exponent = -3\<rparr>, \<lparr>mantissa = 500, exponent = -3\<rparr>]"
  "entries ResourceMemory (Containers (Spec sample_pod)) =
     [\<lparr>mantissa = 134217728, exponent = 0\<rparr>, \<lparr>mantissa = 268435456, exponent = 0\<rparr>]"
  by (simp_all add: entries_def sample_pod_def ResourceCPU_def ResourceMemory_def)

theorem totals_are_exact_sums_witness:
  "Body (http_request body_pod) = Inr body_pod \<and>
   Unmarshal_AdmissionReview sample_json body_pod = Inr (review_of request_pod) \<and>
   Request (review_of request_pod) = Some request_pod \<and>
   GVK_Kind (Request_Kind request_pod) = ''Pod'' \<and>
   Unmarshal_Pod sample_json (Raw (Request_Object request_pod)) = Inr sample_pod \<and>
   (\<exists>totalMemory totalCPU rest.
      log_of (handleAdmissionReview sample_json new_ResponseWriter (http_request body_pod) []) =
        [log_Println [S ''In handleAdmissionReview ...''],
         log_Println [S ''Successfully decoded AdmissionReview'']] @
        concat (map container_lines (Containers (Spec sample_pod))) @
        [log_Printf (''Total Memory Requested: %s'' @ [CHR 0x0A]) [Q totalMemory],
         log_Printf (''Total CPU Requested: %s'' @ [CHR 0x0A]) [Q totalCPU]] @ rest \<and>
      amount totalCPU = 1 \<and> amount totalCPU = amount \<lparr>mantissa = 1, exponent = 0\<rparr> \<and>
      amount totalMemory = 402653184)"
proof -
  have h: "Body (http_request body_pod) = Inr body_pod"
    "Unmarshal_AdmissionReview sample_json body_pod = Inr (review_of request_pod)"
    "Request (review_of request_pod) = Some request_pod"
    "GVK_Kind (Request_Kind request_pod) = ''Pod''"
    "Unmarshal_Pod sample_json (Raw (Request_Object request_pod)) = Inr sample_pod"
    by (simp_all add: sample_requests sample_json_decodes)
  have e: "exact_sum (entries ResourceCPU (Containers (Spec sample_pod))) = 1"
    "exact_sum (entries ResourceMemory (Containers (Spec sample_pod))) = 402653184"
    "amount \<lparr>mantissa = 1, exponent = 0\<rparr> = 1"
    by (simp_all add: sample_pod_entries exact_sum_def amount_def)
  show ?thesis
    using h totals_are_exact_sums [OF h, of new_ResponseWriter "[]"]
    by (simp add: e)
qed

text \<open>The additions the specification names: 500m + 500m and 250m + 750m are 1.\<close>

lemma exact_addition_examples:
  "amount (Quantity_Add \<lparr>mantissa = 500, exponent = -3\<rparr> \<lparr>mantissa = 500, exponent = -3\<rparr>) =
     amount \<lparr>mantissa = 1, exponent = 0\<rparr>"
  "amount (Quantity_Add \<lparr>mantissa = 250, exponent = -3\<rparr> \<lparr>mantissa = 750, exponent = -3\<rparr>) =
     amount \<lparr>mantissa = 1, exponent = 0\<rparr>"
  "amount (Quantity_Add \<lparr>mantissa = 1, exponent = 0\<rparr> \<lparr>mantissa = 500, exponent = -3\<rparr>) = 3 / 2"
  by (simp_all add: Quantity_Add_def amount_def)

lemma entries_same_requests:
  assumes "list_all2 same_requests cs ds"
  shows "entries ResourceCPU cs = entries ResourceCPU ds \<and>
         entries ResourceMemory cs = entries ResourceMemory ds"
  using assms
  by (induction cs ds rule: list_all2_induct)
     (simp_all add: entries_def same_requests_def split: option.split)

text \<open>
  C10. Two lists of containers that agree, container by container, on the \<^verbatim>\<open>cpu\<close> and
  \<^verbatim>\<open>memory\<close> entries of \<open>Requests\<close> leave the loop with the same two totals, whatever
  their \<open>Limits\<close>, their names and the other entries of \<open>Requests\<close> are.
\<close>
theorem totals_depend_on_cpu_and_memory_requests_only:
  assumes "list_all2 same_requests cs ds"
  shows "fst (containers_loop cs (totalMemory, totalCPU, lg)) =
           fst (containers_loop ds (totalMemory, totalCPU, lg')) \<and>
         fst (snd (containers_loop cs (totalMemory, totalCPU, lg))) =
           fst (snd (containers_loop ds (totalMemory, totalCPU, lg')))"
  by (simp add: containers_loop_eq entries_same_requests [OF assms])

theorem totals_depend_on_cpu_and_memory_requests_only_witness:
  "list_all2 same_requests [container_extras] [container_plain] \<and>
   Limits (Resources container_extras) \<noteq> Limits (Resources container_plain) \<and>
   Requests (Resources container_extras) \<noteq> Requests (Resources container_plain) \<and>
   fst (containers_loop [container_extras] (Quantity_zero, Quantity_zero, [])) =
     fst (containers_loop [container_plain] (Quantity_zero, Quantity_zero, [])) \<and>
   fst (snd (containers_loop [container_extras] (Quantity_zero, Quantity_zero, []))) =
     fst (snd (containers_loop [container_plain] (Quantity_zero, Quantity_zero, [])))"
proof -
  have h: "list_all2 same_requests [container_extras] [container_plain]"
    by (simp add: same_requests_def container_extras_def container_plain_def
          ResourceCPU_def ResourceMemory_def)
  have "Limits (Resources container_extras) ''cpu'' \<noteq> Limits (Resources container_plain) ''cpu''"
    by (simp add: container_extras_def container_plain_def)
  then have l: "Limits (Resources container_extras) \<noteq> Limits (Resources container_plain)"
    by metis
  have "Requests (Resources container_extras) ''ephemeral-storage'' \<noteq>
        Requests (Resources container_plain) ''ephemeral-storage''"
    by (simp add: container_extras_def container_plain_def)
  then have q: "Requests (Resources container_extras) \<noteq> Requests (Resources container_plain)"
    by metis
  show ?thesis
    using h l q
      totals_depend_on_cpu_and_memory_requests_only [OF h, of Quantity_zero Quantity_zero "[]" "[]"]
    by simp
qed

subsection \<open>No state from earlier requests\<close>

text \<open>
  The handler only appends to the log: its outcome on a log is its outcome on the empty
  log with the earlier lines in front.
\<close>
lemma handle_appends:
  "handleAdmissionReview json w r lg =
     (case handleAdmissionReview json w r [] of
        Panic w' l \<Rightarrow> Panic w' (lg @ l)
      | Return w' l \<Rightarrow> Return w' (lg @ l))"
  by (simp add: handleAdmissionReview_def parseAdmissionReview_def httpError_def Encode_def
        containers_loop_eq Let_def split: sum.split option.split)

text \<open>
  C8. What the client receives does not depend on the log the invocation starts from,
  which is the only state earlier requests leave behind: two invocations on the same
  request with the same writer give the same status code and the same bytes (hence the
  same decision and the same UID), or both panic.
\<close>
theorem response_does_not_depend_on_earlier_requests:
  "response (handleAdmissionReview json w r lg) = response (handleAdmissionReview json w r lg')"
proof -
  have "response (handleAdmissionReview json w r l) = response (handleAdmissionReview json w r [])" for l
    by (subst handle_appends) (simp split: outcome.split)
  from this [of lg] this [of lg'] show ?thesis by (rule trans [OF _ sym])
qed

subsection \<open>The type of the outbound envelope\<close>

text \<open>
  C6, as stated, fails. The sample request comes in an envelope of API version
  \<^verbatim>\<open>admission.k8s.io/v1\<close>; the envelope the handler encodes has the empty API version, and
  the bytes sent hold a \<^verbatim>\<open>response\<close> member only.
\<close>
theorem envelope_version_counterexample:
  \<open>Unmarshal_AdmissionReview sample_json body_pod = Inr (review_of request_pod) \<and>
   APIVersion (TypeMeta (review_of request_pod)) = ''admission.k8s.io/v1'' \<and>
   handleAdmissionReview sample_json new_ResponseWriter (http_request body_pod) [] =
     Return (fst (Encode sample_json
                    (Header_Set new_ResponseWriter ''Content-Type'' ''application/json'')
                    (admissionReviewResponse request_pod)))
            (success_log sample_pod) \<and>
   APIVersion (TypeMeta (admissionReviewResponse request_pod)) = '''' \<and>
   APIVersion (TypeMeta (admissionReviewResponse request_pod)) \<noteq>
     APIVersion (TypeMeta (review_of request_pod)) \<and>
   response (handleAdmissionReview sample_json new_ResponseWriter (http_request body_pod) []) =
     Some \<lparr>header = [''Content-Type'' \<mapsto> ''application/json''],
           statusCode = Some 200,
           written = ''{"response":{"uid":"705ab4f5-6393-11e8-b7cc-42010a800002","allowed":true}}'' @ [CHR 0x0A]\<rparr>\<close>
proof -
  have h: "Body (http_request body_pod) = Inr body_pod"
    "Unmarshal_AdmissionReview sample_json body_pod = Inr (review_of request_pod)"
    "Request (review_of request_pod) = Some request_pod"
    "GVK_Kind (Request_Kind request_pod) = ''Pod''"
    "Unmarshal_Pod sample_json (Raw (Request_Object request_pod)) = Inr sample_pod"
    by (simp_all add: sample_requests sample_json_decodes)
  have v: "APIVersion (TypeMeta (review_of request_pod)) = ''admission.k8s.io/v1''"
    "APIVersion (TypeMeta (admissionReviewResponse request_pod)) = ''''"
    by (simp_all add: review_of_def admissionReviewResponse_def)
  have r: "handleAdmissionReview sample_json new_ResponseWriter (http_request body_pod) [] =
     Return (fst (Encode sample_json
                    (Header_Set new_ResponseWriter ''Content-Type'' ''application/json'')
                    (admissionReviewResponse request_pod)))
            (success_log sample_pod)"
    by (simp add: handle_pod [OF h] sample_Marshal_response Encode_def)
  have w: \<open>fst (Encode sample_json
                (Header_Set new_ResponseWriter ''Content-Type'' ''application/json'')
                (admissionReviewResponse request_pod)) =
     \<lparr>header = [''Content-Type'' \<mapsto> ''application/json''],
      statusCode = Some 200,
      written = ''{"response":{"uid":"705ab4f5-6393-11e8-b7cc-42010a800002","allowed":true}}'' @ [CHR 0x0A]\<rparr>\<close>
    by (simp add: Encode_def sample_Marshal_response Write_def WriteHeader_def Header_Set_def
          new_ResponseWriter_def StatusOK_def)
  show ?thesis
    by (simp only: h v r w response.simps) simp
qed

text \<open>
  C6, amended. When the request is for a Pod that decodes, the envelope that is encoded
  has the empty \<open>TypeMeta\<close> (kind and API version are the empty string) and no request,
  whatever the API version of the incoming envelope is.
\<close>
theorem envelope_has_empty_type_meta:
  assumes "Body r = Inr data" and "Unmarshal_AdmissionReview json data = Inr review"
    and "Request review = Some request" and "GVK_Kind (Request_Kind request) = ''Pod''"
    and "Unmarshal_Pod json (Raw (Request_Object request)) = Inr pod"
  shows "\<exists>envelope.
           TypeMeta envelope = \<lparr>Kind = '''', APIVersion = ''''\<rparr> \<and> Request envelope = None \<and>
           response (handleAdmissionReview json w r lg) =
             Some (case Marshal json envelope of
                     Inr text \<Rightarrow> Write (Header_Set w ''Content-Type'' ''application/json'') (text @ [CHR 0x0A])
                   | Inl err \<Rightarrow> http_Error (Header_Set w ''Content-Type'' ''application/json'')
                                 ''could not encode response'' StatusInternalServerError)"
proof -
  let ?envelope = "admissionReviewResponse request"
  have "TypeMeta ?envelope = \<lparr>Kind = '''', APIVersion = ''''\<rparr>" "Request ?envelope = None"
    by (simp_all add: admissionReviewResponse_def)
  moreover have "response (handleAdmissionReview json w r lg) =
             Some (case Marshal json ?envelope of
                     Inr text \<Rightarrow> Write (Header_Set w ''Content-Type'' ''application/json'') (text @ [CHR 0x0A])
                   | Inl err \<Rightarrow> http_Error (Header_Set w ''Content-Type'' ''application/json'')
                                 ''could not encode response'' StatusInternalServerError)"
    by (simp add: handle_pod [OF assms] split: sum.split)
  ultimately show ?thesis by blast
qed

theorem envelope_has_empty_type_meta_witness:
  "Body (http_request body_pod) = Inr body_pod \<and>
   Unmarshal_AdmissionReview sample_json body_pod = Inr (review_of request_pod) \<and>
   Request (review_of request_pod) = Some request_pod \<and>
   GVK_Kind (Request_Kind request_pod) = ''Pod'' \<and>
   Unmarshal_Pod sample_json (Raw (Request_Object request_pod)) = Inr sample_pod \<and>
   (\<exists>envelope.
      TypeMeta envelope = \<lparr>Kind = '''', APIVersion = ''''\<rparr> \<and> Request envelope = None \<and>
      response (handleAdmissionReview sample_json new_ResponseWriter (http_request body_pod) []) =
        Some (case Marshal sample_json envelope of
                Inr text \<Rightarrow> Write (Header_Set new_ResponseWriter ''Content-Type'' ''application/json'') (text @ [CHR 0x0A])
              | Inl err \<Rightarrow> http_Error (Header_Set new_ResponseWriter ''Content-Type'' ''application/json'')
                            ''could not encode response'' StatusInternalServerError))"
proof -
  have h: "Body (http_request body_pod) = Inr body_pod"
    "Unmarshal_AdmissionReview sample_json body_pod = Inr (review_of request_pod)"
    "Request (review_of request_pod) = Some request_pod"
    "GVK_Kind (Request_Kind request_pod) = ''Pod''"
    "Unmarshal_Pod sample_json (Raw (Request_Object request_pod)) = Inr sample_pod"
    by (simp_all add: sample_requests sample_json_decodes)
  show ?thesis
    using h envelope_has_empty_type_meta [OF h, of new_ResponseWriter "[]"]
    by simp
qed

end
